theory Spec2Isabelle
  imports Main
begin

section \<open>JavaScript values, objects and the heap\<close>

text \<open>
  The library is JavaScript: containers are objects with identity, classification inspects
  prototype chains, and every call either returns or throws. Values are modelled as a
  datatype; objects live in a heap and are named by their address, so that \<open>===\<close> on two
  values is equality of the model's values. Numbers are the integer-valued ones.
\<close>

type_synonym addr = nat

datatype jsval =
    JUndefined
  | JNull
  | JBool bool
  | JNum int
  | JStr string
  | JSym nat
  | JRef addr

text \<open>
  The objects that can occur on a prototype chain. \<open>ErrorPrototype\<close> is the object
  \<open>Error.prototype\<close>; \<open>ErrorConstructor\<close> is the function object \<open>Error\<close> itself
  (the prototype of \<open>Object.create(Error)\<close>). \<open>UserPrototype n\<close> stands for any other
  object a caller put on a chain.
\<close>

datatype proto =
    ObjectPrototype
  | FunctionPrototype
  | ErrorPrototype
  | TypeErrorPrototype
  | ErrorConstructor
  | ResultPrototype
  | OptionPrototype
  | UserPrototype nat

text \<open>
  An object: whether it is callable (\<open>typeof\<close> gives \<open>"function"\<close>), its prototype chain
  (nearest prototype first) and its own data properties.
\<close>

record jsobj =
  callable :: bool
  protos :: "proto list"
  props :: "(string \<times> jsval) list"

type_synonym heap = "jsobj list"

text \<open>A call returns a value or throws one; it may allocate on the way.\<close>

datatype 'a completion = Return 'a | Throw jsval

type_synonym 'a js = "heap \<Rightarrow> 'a completion \<times> heap"

definition js_return :: "'a \<Rightarrow> 'a js" where
  "js_return x h = (Return x, h)"

definition js_throw :: "jsval \<Rightarrow> 'a js" where
  "js_throw e h = (Throw e, h)"

definition js_bind :: "'a js \<Rightarrow> ('a \<Rightarrow> 'b js) \<Rightarrow> 'b js" where
  "js_bind m f h = (case m h of (Return x, h') \<Rightarrow> f x h' | (Throw e, h') \<Rightarrow> (Throw e, h'))"

text \<open>\<open>try { m } catch (e) { handler(e) }\<close>\<close>

definition js_catch :: "'a js \<Rightarrow> (jsval \<Rightarrow> 'a js) \<Rightarrow> 'a js" where
  "js_catch m handler h = (case m h of (Return x, h') \<Rightarrow> (Return x, h') | (Throw e, h') \<Rightarrow> handler e h')"

definition alloc :: "jsobj \<Rightarrow> addr js" where
  "alloc ob h = (Return (length h), h @ [ob])"

subsection \<open>Operators\<close>

fun truthy :: "jsval \<Rightarrow> bool" where
  "truthy JUndefined = False"
| "truthy JNull = False"
| "truthy (JBool b) = b"
| "truthy (JNum n) = (n \<noteq> 0)"
| "truthy (JStr s) = (s \<noteq> [])"
| "truthy (JSym n) = True"
| "truthy (JRef a) = True"

definition js_or :: "jsval \<Rightarrow> jsval \<Rightarrow> jsval" where
  "js_or a b = (if truthy a then a else b)"

definition js_and :: "jsval \<Rightarrow> jsval \<Rightarrow> jsval" where
  "js_and a b = (if truthy a then b else a)"

definition js_not :: "jsval \<Rightarrow> jsval" where
  "js_not a = JBool (\<not> truthy a)"

definition typeof :: "heap \<Rightarrow> jsval \<Rightarrow> string" where
  "typeof h v = (case v of
      JUndefined \<Rightarrow> ''undefined''
    | JNull \<Rightarrow> ''object''
    | JBool b \<Rightarrow> ''boolean''
    | JNum n \<Rightarrow> ''number''
    | JStr s \<Rightarrow> ''string''
    | JSym n \<Rightarrow> ''symbol''
    | JRef a \<Rightarrow> (if callable (h ! a) then ''function'' else ''object''))"

text \<open>The prototype chain of a value; only objects have one that the tests below walk.\<close>

definition object_chain :: "heap \<Rightarrow> jsval \<Rightarrow> proto list" where
  "object_chain h v = (case v of JRef a \<Rightarrow> protos (h ! a) | _ \<Rightarrow> [])"

text \<open>\<open>v instanceof C\<close>, given \<open>C.prototype\<close>: is \<open>C.prototype\<close> on the chain of \<open>v\<close>?\<close>

definition instanceof :: "heap \<Rightarrow> jsval \<Rightarrow> proto \<Rightarrow> bool" where
  "instanceof h v cproto = (cproto \<in> set (object_chain h v))"

text \<open>\<open>p.isPrototypeOf(v)\<close>: is the object \<open>p\<close> itself on the chain of \<open>v\<close>?\<close>

definition isPrototypeOf :: "heap \<Rightarrow> proto \<Rightarrow> jsval \<Rightarrow> bool" where
  "isPrototypeOf h p v = (p \<in> set (object_chain h v))"

text \<open>\<open>this.val\<close>: an own property; \<open>undefined\<close> when the object has none.\<close>

definition get_val :: "heap \<Rightarrow> addr \<Rightarrow> jsval" where
  "get_val h this = (case map_of (props (h ! this)) ''val'' of Some v \<Rightarrow> v | None \<Rightarrow> JUndefined)"

section \<open>Result: classification\<close>

definition Result_isOk :: "heap \<Rightarrow> addr \<Rightarrow> jsval" where
  "Result_isOk h this =
     js_not (js_or (JBool (instanceof h (get_val h this) ErrorPrototype))
               (js_and (js_and (get_val h this)
                               (JBool (typeof h (get_val h this) = ''object'')))
                       (JBool (isPrototypeOf h ErrorConstructor (get_val h this)))))"

definition Result_isErr :: "heap \<Rightarrow> addr \<Rightarrow> jsval" where
  "Result_isErr h this =
     js_or (JBool (instanceof h (get_val h this) ErrorPrototype))
           (js_and (js_and (get_val h this)
                           (JBool (typeof h (get_val h this) = ''object'')))
                   (JBool (isPrototypeOf h ErrorConstructor (get_val h this))))"

section \<open>Errors, property access and string conversion\<close>

text \<open>
  \<open>new Error(msg)\<close>: an object whose prototype is \<open>Error.prototype\<close>, with own
  properties \<open>message\<close> and \<open>stack\<close>. The stack text is the engine's; the model keeps its
  header line and no frames.
\<close>

definition new_Error :: "string \<Rightarrow> addr js" where
  "new_Error msg =
     alloc \<lparr>callable = False, protos = [ErrorPrototype, ObjectPrototype],
            props = [(''message'', JStr msg), (''stack'', JStr (''Error: '' @ msg))]\<rparr>"

definition throw_TypeError :: "string \<Rightarrow> 'a js" where
  "throw_TypeError msg =
     js_bind (alloc \<lparr>callable = False,
                     protos = [TypeErrorPrototype, ErrorPrototype, ObjectPrototype],
                     props = [(''message'', JStr msg), (''stack'', JStr (''TypeError: '' @ msg))]\<rparr>)
             (\<lambda>a. js_throw (JRef a))"

text \<open>
  The data properties that the built-in prototype objects define, among those the library
  reads (\<open>name\<close>, \<open>message\<close>, \<open>stack\<close>). A caller's prototype is taken to define none.
\<close>

fun builtin_prop :: "proto \<Rightarrow> string \<Rightarrow> jsval option" where
  "builtin_prop ErrorPrototype k =
     (if k = ''name'' then Some (JStr ''Error'')
      else if k = ''message'' then Some (JStr []) else None)"
| "builtin_prop TypeErrorPrototype k =
     (if k = ''name'' then Some (JStr ''TypeError'')
      else if k = ''message'' then Some (JStr []) else None)"
| "builtin_prop ErrorConstructor k = (if k = ''name'' then Some (JStr ''Error'') else None)"
| "builtin_prop FunctionPrototype k = (if k = ''name'' then Some (JStr []) else None)"
| "builtin_prop p k = None"

fun chain_prop :: "proto list \<Rightarrow> string \<Rightarrow> jsval" where
  "chain_prop [] k = JUndefined"
| "chain_prop (p # ps) k = (case builtin_prop p k of Some v \<Rightarrow> v | None \<Rightarrow> chain_prop ps k)"

text \<open>\<open>v.k\<close>: a TypeError on \<open>null\<close> and \<open>undefined\<close>; own property first, then the chain.\<close>

definition get_prop :: "jsval \<Rightarrow> string \<Rightarrow> jsval js" where
  "get_prop v k h = (case v of
      JUndefined \<Rightarrow> throw_TypeError (''Cannot read properties of undefined (reading '' @ k @ '')'') h
    | JNull \<Rightarrow> throw_TypeError (''Cannot read properties of null (reading '' @ k @ '')'') h
    | JRef a \<Rightarrow> (case map_of (props (h ! a)) k of
                   Some x \<Rightarrow> (Return x, h)
                 | None \<Rightarrow> (Return (chain_prop (protos (h ! a)) k), h))
    | _ \<Rightarrow> (Return JUndefined, h))"

text \<open>\<open>a.k = v\<close> on an ordinary object.\<close>

definition set_prop :: "addr \<Rightarrow> string \<Rightarrow> jsval \<Rightarrow> unit js" where
  "set_prop a k v h =
     (Return (), h[a := (h ! a)\<lparr>props := (k, v) # filter (\<lambda>kv. fst kv \<noteq> k) (props (h ! a))\<rparr>])"

definition read_val :: "addr \<Rightarrow> jsval js" where
  "read_val this h = (Return (get_val h this), h)"

fun nat_text :: "nat \<Rightarrow> string" where
  "nat_text n = (if n < 10 then [''0123456789'' ! n]
                 else nat_text (n div 10) @ [''0123456789'' ! (n mod 10)])"

definition int_text :: "int \<Rightarrow> string" where
  "int_text i = (if i < 0 then CHR ''-'' # nat_text (nat (- i)) else nat_text (nat i))"

definition prim_text :: "jsval \<Rightarrow> string" where
  "prim_text v = (case v of
      JUndefined \<Rightarrow> ''undefined''
    | JNull \<Rightarrow> ''null''
    | JBool b \<Rightarrow> (if b then ''true'' else ''false'')
    | JNum n \<Rightarrow> int_text n
    | JStr s \<Rightarrow> s
    | JSym n \<Rightarrow> ''Symbol()''
    | JRef a \<Rightarrow> ''[object Object]'')"

text \<open>
  \<open>Error.prototype.toString\<close>: name and message, each with its default when \<open>undefined\<close>,
  joined by a colon when both are non-empty. Name and message are strings in what the
  library builds; another value is rendered by \<open>prim_text\<close>.
\<close>

definition error_text :: "jsobj \<Rightarrow> string" where
  "error_text ob =
     (let nm = (case map_of (props ob) ''name'' of
                  Some x \<Rightarrow> x | None \<Rightarrow> chain_prop (protos ob) ''name'');
          ms = (case map_of (props ob) ''message'' of
                  Some x \<Rightarrow> x | None \<Rightarrow> chain_prop (protos ob) ''message'');
          n = (if nm = JUndefined then ''Error'' else prim_text nm);
          m = (if ms = JUndefined then [] else prim_text ms)
      in if n = [] then m else if m = [] then n else n @ '': '' @ m)"

text \<open>
  The \<open>toString\<close> that an object inherits, by the first prototype on its chain that has one:
  \<open>Error.prototype.toString\<close>; \<open>Object.prototype.toString\<close> with the class's
  \<open>Symbol.toStringTag\<close> getter (\<open>Result\<close>, \<open>Option\<close>); \<open>Function.prototype.toString\<close>, a
  TypeError on an object that is not callable. \<open>None\<close> is a TypeError. A \<open>toString\<close> that
  a caller defines is not modelled; the texts are only used in messages of thrown errors.
\<close>

fun chain_text :: "jsobj \<Rightarrow> proto list \<Rightarrow> string option" where
  "chain_text ob [] = None"
| "chain_text ob (ErrorPrototype # ps) = Some (error_text ob)"
| "chain_text ob (ResultPrototype # ps) = Some ''[object Result]''"
| "chain_text ob (OptionPrototype # ps) = Some ''[object Option]''"
| "chain_text ob (ObjectPrototype # ps) = Some ''[object Object]''"
| "chain_text ob (FunctionPrototype # ps) =
     (if callable ob then Some ''function () { [native code] }'' else None)"
| "chain_text ob (p # ps) = chain_text ob ps"

text \<open>The string conversion of a template literal's substitution.\<close>

definition template :: "jsval \<Rightarrow> string js" where
  "template v h = (case v of
      JSym n \<Rightarrow> throw_TypeError ''Cannot convert a Symbol value to a string'' h
    | JRef a \<Rightarrow> (case chain_text (h ! a) (protos (h ! a)) of
                   Some s \<Rightarrow> (Return s, h)
                 | None \<Rightarrow> throw_TypeError ''Cannot convert object to primitive value'' h)
    | _ \<Rightarrow> (Return (prim_text v), h))"

text \<open>\<open>s.split("\n").join("\n\t")\<close>\<close>

definition indent_lines :: "string \<Rightarrow> string" where
  "indent_lines s = concat (map (\<lambda>c. if c = CHR 0x0A then [CHR 0x0A, CHR 0x09] else [c]) s)"

section \<open>Constructors and factories\<close>

text \<open>\<open>export const none = Symbol("None")\<close>: one symbol, created once.\<close>

definition none :: jsval where
  "none = JSym 0"

definition new_Option :: "jsval \<Rightarrow> addr js" where
  "new_Option input =
     alloc \<lparr>callable = False, protos = [OptionPrototype, ObjectPrototype],
            props = [(''val'', input)]\<rparr>"

definition new_Result :: "jsval \<Rightarrow> addr js" where
  "new_Result input =
     alloc \<lparr>callable = False, protos = [ResultPrototype, ObjectPrototype],
            props = [(''val'', input)]\<rparr>"

definition Some_js :: "jsval \<Rightarrow> addr js" where
  "Some_js input = new_Option input"

definition None_js :: "addr js" where
  "None_js = new_Option none"

definition Ok :: "jsval \<Rightarrow> addr js" where
  "Ok input = new_Result input"

text \<open>\<open>typeof input === "string"\<close> holds exactly of the string values.\<close>

definition Err :: "jsval \<Rightarrow> addr js" where
  "Err input =
     (case input of
        JStr s \<Rightarrow> js_bind (new_Error s) (\<lambda>e. new_Result (JRef e))
      | _ \<Rightarrow> new_Result input)"

section \<open>Option\<close>

definition Option_isSome :: "heap \<Rightarrow> addr \<Rightarrow> jsval" where
  "Option_isSome h this = JBool (get_val h this \<noteq> none)"

definition Option_isNone :: "heap \<Rightarrow> addr \<Rightarrow> jsval" where
  "Option_isNone h this = JBool (get_val h this = none)"

definition Option_expect :: "addr \<Rightarrow> string \<Rightarrow> jsval js" where
  "Option_expect this msg h =
     (if truthy (Option_isNone h this)
      then js_bind (new_Error msg) (\<lambda>e. js_throw (JRef e)) h
      else read_val this h)"

definition Option_unwrap :: "addr \<Rightarrow> jsval js" where
  "Option_unwrap this h =
     (if truthy (Option_isNone h this)
      then js_bind (new_Error ''Unwrap called on None'') (\<lambda>e. js_throw (JRef e)) h
      else read_val this h)"

definition Option_unwrapOr :: "addr \<Rightarrow> jsval \<Rightarrow> jsval js" where
  "Option_unwrapOr this fallback h =
     (if truthy (Option_isNone h this) then js_return fallback h else read_val this h)"

definition Option_unwrapOrElse :: "addr \<Rightarrow> jsval js \<Rightarrow> jsval js" where
  "Option_unwrapOrElse this fn h =
     (if truthy (Option_isNone h this) then fn h else read_val this h)"

definition Option_map :: "addr \<Rightarrow> (jsval \<Rightarrow> jsval js) \<Rightarrow> addr js" where
  "Option_map this fn h =
     (if truthy (Option_isSome h this) then js_bind (fn (get_val h this)) new_Option h
      else js_return this h)"

definition Option_mapOr :: "addr \<Rightarrow> jsval \<Rightarrow> (jsval \<Rightarrow> jsval js) \<Rightarrow> jsval js" where
  "Option_mapOr this fallback fn h =
     (if truthy (Option_isSome h this) then fn (get_val h this) h else js_return fallback h)"

definition Option_or :: "addr \<Rightarrow> addr \<Rightarrow> addr js" where
  "Option_or this alt h =
     (if truthy (Option_isSome h this) then js_return this h else js_return alt h)"

definition Option_okOr :: "addr \<Rightarrow> jsval \<Rightarrow> addr js" where
  "Option_okOr this err h =
     (if truthy (Option_isSome h this) then Ok (get_val h this) h else Err err h)"

definition Option_peek :: "addr \<Rightarrow> jsval js" where
  "Option_peek this = read_val this"

text \<open>\<open>flatten\<close> returns \<open>this.val\<close> when that is an Option, which then is an object.\<close>

definition Option_flatten :: "addr \<Rightarrow> addr js" where
  "Option_flatten this h =
     (if instanceof h (get_val h this) OptionPrototype
      then js_return (case get_val h this of JRef a \<Rightarrow> a | _ \<Rightarrow> this) h
      else js_return this h)"

definition Option_from :: "jsval js \<Rightarrow> addr js" where
  "Option_from fn =
     js_bind fn (\<lambda>result.
       if result = JNull \<or> result = JUndefined then new_Option none else new_Option result)"

section \<open>Result\<close>

text \<open>
  \<open>formatError(err)\<close> sets \<open>err.stack\<close> from the contained value's stack or message and
  throws \<open>err\<close>; it never returns. A truthy \<open>stack\<close> that is not a string has no \<open>split\<close>.
\<close>

definition Result_formatError :: "addr \<Rightarrow> addr \<Rightarrow> jsval js" where
  "Result_formatError this err =
     js_bind (get_prop (JRef err) ''message'') (\<lambda>m.
     js_bind (template m) (\<lambda>front.
     js_bind (js_bind (read_val this) (\<lambda>v. get_prop v ''stack'')) (\<lambda>st.
     js_bind (if truthy st
              then (case st of
                      JStr s \<Rightarrow> js_return (JStr ([CHR 0x0A, CHR 0x09] @ indent_lines s))
                    | _ \<Rightarrow> throw_TypeError ''this.val.stack.split is not a function'')
              else js_bind (read_val this) (\<lambda>v. get_prop v ''message'')) (\<lambda>rest.
     js_bind (template rest) (\<lambda>back.
     js_bind (set_prop err ''stack'' (JStr (front @ '': '' @ back))) (\<lambda>u.
     js_throw (JRef err)))))))"

definition Result_expect :: "addr \<Rightarrow> string \<Rightarrow> jsval js" where
  "Result_expect this msg h =
     (if truthy (Result_isErr h this)
      then js_bind (js_bind (new_Error msg) (Result_formatError this)) (\<lambda>u. read_val this) h
      else read_val this h)"

definition Result_expectErr :: "addr \<Rightarrow> string \<Rightarrow> jsval js" where
  "Result_expectErr this msg h =
     (if truthy (Result_isOk h this)
      then js_bind (js_bind (new_Error msg) (Result_formatError this)) (\<lambda>u. read_val this) h
      else read_val this h)"

definition Result_unwrap :: "addr \<Rightarrow> jsval js" where
  "Result_unwrap this h =
     (if truthy (Result_isErr h this)
      then js_bind
             (js_bind (js_bind (js_bind (read_val this) (\<lambda>v. get_prop v ''name'')) template) (\<lambda>nm.
              js_bind (new_Error (''Unwrap called on '' @ nm)) (Result_formatError this)))
             (\<lambda>u. read_val this) h
      else read_val this h)"

definition Result_unwrapErr :: "addr \<Rightarrow> jsval js" where
  "Result_unwrapErr this h =
     (if truthy (Result_isOk h this)
      then js_bind (js_bind (read_val this) template) (\<lambda>t.
           js_bind (new_Error (''UnwrapError called on value - '' @ t)) (\<lambda>e. js_throw (JRef e))) h
      else read_val this h)"

definition Result_unwrapOr :: "addr \<Rightarrow> jsval \<Rightarrow> jsval js" where
  "Result_unwrapOr this fallback h =
     (if truthy (Result_isErr h this) then js_return fallback h else read_val this h)"

definition Result_unwrapOrElse :: "addr \<Rightarrow> (jsval \<Rightarrow> jsval js) \<Rightarrow> jsval js" where
  "Result_unwrapOrElse this fn h =
     (if truthy (Result_isErr h this) then fn (get_val h this) h else read_val this h)"

definition Result_map :: "addr \<Rightarrow> (jsval \<Rightarrow> jsval js) \<Rightarrow> addr js" where
  "Result_map this fn h =
     (if truthy (Result_isOk h this) then js_bind (fn (get_val h this)) new_Result h
      else js_return this h)"

definition Result_mapErr :: "addr \<Rightarrow> (jsval \<Rightarrow> jsval js) \<Rightarrow> addr js" where
  "Result_mapErr this fn h =
     (if truthy (Result_isOk h this) then js_return this h
      else js_bind (fn (get_val h this)) new_Result h)"

definition Result_mapOr :: "addr \<Rightarrow> jsval \<Rightarrow> (jsval \<Rightarrow> jsval js) \<Rightarrow> jsval js" where
  "Result_mapOr this fallback fn h =
     (if truthy (Result_isOk h this) then fn (get_val h this) h else js_return fallback h)"

definition Result_or :: "addr \<Rightarrow> addr \<Rightarrow> addr js" where
  "Result_or this alt h =
     (if truthy (Result_isOk h this) then js_return this h else js_return alt h)"

definition Result_ok :: "addr \<Rightarrow> addr js" where
  "Result_ok this h =
     (if truthy (Result_isOk h this) then Some_js (get_val h this) h else None_js h)"

definition Result_peek :: "addr \<Rightarrow> jsval js" where
  "Result_peek this = read_val this"

definition Result_throw :: "addr \<Rightarrow> jsval js" where
  "Result_throw this h =
     (if truthy (Result_isErr h this) then js_throw (get_val h this) h
      else js_return JUndefined h)"

definition Result_flatten :: "addr \<Rightarrow> addr js" where
  "Result_flatten this h =
     (if instanceof h (get_val h this) ResultPrototype
      then js_return (case get_val h this of JRef a \<Rightarrow> a | _ \<Rightarrow> this) h
      else js_return this h)"

definition Result_from :: "jsval js \<Rightarrow> addr js" where
  "Result_from fn = js_catch (js_bind fn new_Result) new_Result"

text \<open>
  \<open>Result.partition\<close>: the accumulator \<open>{ok: [], err: []}\<close> and one pass of \<open>reduce\<close>
  over the input array, whose elements are Result containers.
\<close>

record partitioned =
  ok :: "jsval list"
  err :: "jsval list"

fun reduce :: "('b \<Rightarrow> 'a \<Rightarrow> 'b js) \<Rightarrow> 'a list \<Rightarrow> 'b \<Rightarrow> 'b js" where
  "reduce f [] acc = js_return acc"
| "reduce f (e # es) acc = js_bind (f acc e) (reduce f es)"

definition partition_step :: "partitioned \<Rightarrow> addr \<Rightarrow> partitioned js" where
  "partition_step acc e h =
     (if truthy (Result_isOk h e)
      then js_bind (Result_unwrap e) (\<lambda>v. js_return (acc\<lparr>ok := ok acc @ [v]\<rparr>)) h
      else js_bind (Result_unwrapErr e) (\<lambda>v. js_return (acc\<lparr>err := err acc @ [v]\<rparr>)) h)"

definition Result_partition :: "addr list \<Rightarrow> partitioned js" where
  "Result_partition input = reduce partition_step input \<lparr>ok = [], err = []\<rparr>"

section \<open>Asynchronous adapters\<close>

text \<open>
  What \<open>await\<close> finds: the awaited computation fulfils with a value, rejects with a value,
  or never settles. An \<open>async\<close> function returns a promise, which fulfils with what the
  body returns, rejects with what it throws, and stays pending while the body waits.
\<close>

datatype awaitable = Resolves jsval | Rejects jsval | NeverSettles

datatype 'a promise = Fulfilled 'a | Rejected jsval | Pending

definition settle :: "'a completion \<times> heap \<Rightarrow> 'a promise \<times> heap" where
  "settle r = (case r of (Return x, h) \<Rightarrow> (Fulfilled x, h) | (Throw e, h) \<Rightarrow> (Rejected e, h))"

text \<open>The standalone adapter; its argument is a computation already in flight.\<close>

definition async :: "awaitable \<Rightarrow> heap \<Rightarrow> addr promise \<times> heap" where
  "async fn h = (case fn of
      NeverSettles \<Rightarrow> (Pending, h)
    | Resolves data \<Rightarrow> settle (js_catch (Ok data) Err h)
    | Rejects error \<Rightarrow> settle (Err error h))"

text \<open>
  \<open>fromAsync(fn)\<close> calls \<open>fn\<close>, which throws or returns something to await, inside the
  \<open>try\<close> (Result) or without one (Option).
\<close>

definition Result_fromAsync :: "awaitable js \<Rightarrow> heap \<Rightarrow> addr promise \<times> heap" where
  "Result_fromAsync fn h = (case fn h of
      (Throw e, h1) \<Rightarrow> settle (new_Result e h1)
    | (Return NeverSettles, h1) \<Rightarrow> (Pending, h1)
    | (Return (Resolves v), h1) \<Rightarrow> settle (js_catch (new_Result v) new_Result h1)
    | (Return (Rejects e), h1) \<Rightarrow> settle (new_Result e h1))"

definition Option_fromAsync :: "awaitable js \<Rightarrow> heap \<Rightarrow> addr promise \<times> heap" where
  "Option_fromAsync fn h = (case fn h of
      (Throw e, h1) \<Rightarrow> (Rejected e, h1)
    | (Return NeverSettles, h1) \<Rightarrow> (Pending, h1)
    | (Return (Rejects e), h1) \<Rightarrow> (Rejected e, h1)
    | (Return (Resolves result), h1) \<Rightarrow>
        settle ((if result = JNull \<or> result = JUndefined then new_Option none
                 else new_Option result) h1))"

section \<open>Membership-test hooks\<close>

text \<open>
  \<open>instance.m()\<close> for one of the four predicates: an own property \<open>m\<close> is called when it
  is a function (a caller's function, whose behaviour is the parameter \<open>call_fn\<close>, applied
  to the function and the receiver), else the first class on the chain that defines \<open>m\<close>
  runs its method, and calling a missing method is a TypeError. Of the prototypes, only
  \<open>Result.prototype\<close> and \<open>Option.prototype\<close> define such a predicate.
\<close>

fun proto_method :: "proto \<Rightarrow> string \<Rightarrow> (heap \<Rightarrow> addr \<Rightarrow> jsval) option" where
  "proto_method ResultPrototype m =
     (if m = ''isOk'' then Some Result_isOk
      else if m = ''isErr'' then Some Result_isErr else None)"
| "proto_method OptionPrototype m =
     (if m = ''isSome'' then Some Option_isSome
      else if m = ''isNone'' then Some Option_isNone else None)"
| "proto_method p m = None"

fun chain_method :: "proto list \<Rightarrow> string \<Rightarrow> (heap \<Rightarrow> addr \<Rightarrow> jsval) option" where
  "chain_method [] m = None"
| "chain_method (p # ps) m =
     (case proto_method p m of Some body \<Rightarrow> Some body | None \<Rightarrow> chain_method ps m)"

definition invoke :: "(addr \<Rightarrow> jsval \<Rightarrow> jsval js) \<Rightarrow> jsval \<Rightarrow> string \<Rightarrow> jsval js" where
  "invoke call_fn instance m h = (case instance of
      JUndefined \<Rightarrow> throw_TypeError (''Cannot read properties of undefined (reading '' @ m @ '')'') h
    | JNull \<Rightarrow> throw_TypeError (''Cannot read properties of null (reading '' @ m @ '')'') h
    | JRef a \<Rightarrow>
        (case map_of (props (h ! a)) m of
           Some (JRef f) \<Rightarrow>
             (if callable (h ! f) then call_fn f instance h
              else throw_TypeError (''instance?.'' @ m @ '' is not a function'') h)
         | Some x \<Rightarrow> throw_TypeError (''instance?.'' @ m @ '' is not a function'') h
         | None \<Rightarrow>
             (case chain_method (protos (h ! a)) m of
                Some body \<Rightarrow> (Return (body h a), h)
              | None \<Rightarrow> throw_TypeError (''instance?.'' @ m @ '' is not a function'') h))
    | _ \<Rightarrow> throw_TypeError (''instance?.'' @ m @ '' is not a function'') h)"

text \<open>\<open>instance?.m()\<close>: \<open>undefined\<close> without any call when \<open>instance\<close> is nullish.\<close>

definition invoke_opt :: "(addr \<Rightarrow> jsval \<Rightarrow> jsval js) \<Rightarrow> jsval \<Rightarrow> string \<Rightarrow> jsval js" where
  "invoke_opt call_fn instance m =
     (if instance = JNull \<or> instance = JUndefined then js_return JUndefined
      else invoke call_fn instance m)"

definition Ok_hasInstance :: "(addr \<Rightarrow> jsval \<Rightarrow> jsval js) \<Rightarrow> jsval \<Rightarrow> jsval js" where
  "Ok_hasInstance call_fn instance h =
     (if typeof h instance \<noteq> ''object'' then js_return (JBool False) h
      else js_bind (invoke_opt call_fn instance ''isOk'') (\<lambda>r. js_return (js_or r (JBool False))) h)"

definition Err_hasInstance :: "(addr \<Rightarrow> jsval \<Rightarrow> jsval js) \<Rightarrow> jsval \<Rightarrow> jsval js" where
  "Err_hasInstance call_fn instance h =
     (if typeof h instance \<noteq> ''object'' then js_return (JBool False) h
      else js_bind (invoke_opt call_fn instance ''isErr'') (\<lambda>r. js_return (js_or r (JBool False))) h)"

definition Some_hasInstance :: "(addr \<Rightarrow> jsval \<Rightarrow> jsval js) \<Rightarrow> jsval \<Rightarrow> jsval js" where
  "Some_hasInstance call_fn instance h =
     (if typeof h instance \<noteq> ''object'' then js_return (JBool False) h
      else js_bind (invoke_opt call_fn instance ''isSome'') (\<lambda>r. js_return (js_or r (JBool False))) h)"

definition None_hasInstance :: "(addr \<Rightarrow> jsval \<Rightarrow> jsval js) \<Rightarrow> jsval \<Rightarrow> jsval js" where
  "None_hasInstance call_fn instance h =
     (if typeof h instance \<noteq> ''object'' then js_return (JBool False) h
      else js_bind (invoke_opt call_fn instance ''isNone'') (\<lambda>r. js_return (js_or r (JBool False))) h)"


section \<open>Notions used in the statements\<close>

text \<open>A call returns normally when it does not throw.\<close>

definition returns_normally :: "'a completion \<times> heap \<Rightarrow> bool" where
  "returns_normally r = (case fst r of Return x \<Rightarrow> True | Throw e \<Rightarrow> False)"

text \<open>
  \<open>heap_extends h h'\<close>: every object of \<open>h\<close> is in \<open>h'\<close>, at its address and unchanged;
  \<open>h'\<close> may hold more objects.
\<close>

definition heap_extends :: "heap \<Rightarrow> heap \<Rightarrow> bool" where
  "heap_extends h h' = (take (length h) h' = h)"

text \<open>A call made in heap \<open>h\<close> returns a fresh object: one that \<open>h\<close> does not hold.\<close>

definition returns_fresh :: "heap \<Rightarrow> addr completion \<times> heap \<Rightarrow> bool" where
  "returns_fresh h r =
     (case r of (Return a, h') \<Rightarrow> length h \<le> a \<and> a < length h' | (Throw e, h') \<Rightarrow> False)"

text \<open>A value of the heap: a primitive, or a reference to one of its objects.\<close>

definition in_heap :: "heap \<Rightarrow> jsval \<Rightarrow> bool" where
  "in_heap h v = (case v of JRef a \<Rightarrow> a < length h | _ \<Rightarrow> True)"

definition is_object :: "jsval \<Rightarrow> bool" where
  "is_object v = (case v of JRef a \<Rightarrow> True | _ \<Rightarrow> False)"

text \<open>
  The classification that the code computes: \<open>v\<close> is an instance of \<open>Error\<close>, or \<open>v\<close> is
  a non-null value of type \<open>"object"\<close> with the function object \<open>Error\<close> itself on its
  prototype chain.
\<close>

definition failure_classified :: "heap \<Rightarrow> jsval \<Rightarrow> bool" where
  "failure_classified h v =
     (instanceof h v ErrorPrototype
      \<or> (v \<noteq> JNull \<and> typeof h v = ''object'' \<and> isPrototypeOf h ErrorConstructor v))"

text \<open>
  The classification in the specification's words: \<open>v\<close> is an instance of the host error
  type, or \<open>v\<close> is a non-primitive object whose prototype chain includes the host error
  type's prototype.
\<close>

definition spec_failure :: "heap \<Rightarrow> jsval \<Rightarrow> bool" where
  "spec_failure h v =
     (instanceof h v ErrorPrototype \<or> (is_object v \<and> ErrorPrototype \<in> set (object_chain h v)))"


text \<open>The object that \<open>Object.create(Error)\<close> makes.\<close>

definition Object_create_Error :: jsobj where
  "Object_create_Error =
     \<lparr>callable = False, protos = [ErrorConstructor, FunctionPrototype, ObjectPrototype],
      props = []\<rparr>"


section \<open>Basic facts\<close>

lemmas monad_defs = js_return_def js_throw_def js_bind_def js_catch_def alloc_def read_val_def

lemmas operator_defs = js_or_def js_and_def js_not_def typeof_def instanceof_def
  isPrototypeOf_def object_chain_def

lemma new_Option_eq:
  "new_Option v h =
     (Return (length h),
      h @ [\<lparr>callable = False, protos = [OptionPrototype, ObjectPrototype],
             props = [(''val'', v)]\<rparr>])"
  by (simp add: new_Option_def alloc_def)

lemma new_Result_eq:
  "new_Result v h =
     (Return (length h),
      h @ [\<lparr>callable = False, protos = [ResultPrototype, ObjectPrototype],
             props = [(''val'', v)]\<rparr>])"
  by (simp add: new_Result_def alloc_def)

lemma new_Error_eq:
  "new_Error msg h =
     (Return (length h),
      h @ [\<lparr>callable = False, protos = [ErrorPrototype, ObjectPrototype],
             props = [(''message'', JStr msg), (''stack'', JStr (''Error: '' @ msg))]\<rparr>])"
  by (simp add: new_Error_def alloc_def)

lemma nth_heap_second [simp]: "(h @ ob # ob1 # obs) ! Suc (length h) = ob1"
  by (simp add: nth_append)

lemma nth_heap_third [simp]: "(h @ ob # ob1 # ob2 # obs) ! Suc (Suc (length h)) = ob2"
  by (simp add: nth_append)

lemma get_val_new [simp]:
  "get_val (h @ [\<lparr>callable = c, protos = ps, props = [(''val'', v)]\<rparr>]) (length h) = v"
  by (simp add: get_val_def)

lemma get_val_old [simp]: "a < length h \<Longrightarrow> get_val (h @ xs) a = get_val h a"
  by (simp add: get_val_def nth_append)

subsection \<open>Classification\<close>

lemma isErr_classified:
  "Result_isErr h this =
     (if failure_classified h (get_val h this) then JBool True
      else if truthy (get_val h this) then JBool False
      else get_val h this)"
  by (cases "get_val h this")
     (auto simp: Result_isErr_def failure_classified_def operator_defs)

lemma isOk_classified:
  "Result_isOk h this = JBool (\<not> failure_classified h (get_val h this))"
  by (cases "get_val h this")
     (auto simp: Result_isOk_def failure_classified_def operator_defs)

lemma truthy_isErr [simp]: "truthy (Result_isErr h this) = failure_classified h (get_val h this)"
  by (simp add: isErr_classified)

lemma truthy_isOk [simp]:
  "truthy (Result_isOk h this) = (\<not> failure_classified h (get_val h this))"
  by (simp add: isOk_classified)

lemma failure_classified_old [simp]:
  "in_heap h v \<Longrightarrow> failure_classified (h @ xs) v = failure_classified h v"
  by (cases v) (auto simp: in_heap_def failure_classified_def operator_defs nth_append)

subsection \<open>Calls that return, calls that throw\<close>

lemma returns_normally_simps [simp]:
  "returns_normally (Return x, h)" "\<not> returns_normally (Throw e, h)"
  by (simp_all add: returns_normally_def)

lemma bind_never_returns:
  "(\<And>x h'. \<not> returns_normally (f x h')) \<Longrightarrow> \<not> returns_normally (js_bind m f h)"
  by (cases "m h") (auto simp: js_bind_def split: completion.splits)

lemma bind_left_never_returns:
  "\<not> returns_normally (m h) \<Longrightarrow> \<not> returns_normally (js_bind m f h)"
  by (cases "m h") (auto simp: js_bind_def split: completion.splits)

lemma bind_returns:
  "returns_normally (m h) \<Longrightarrow> (\<And>x h'. returns_normally (f x h')) \<Longrightarrow>
   returns_normally (js_bind m f h)"
  by (cases "m h") (auto simp: js_bind_def split: completion.splits)

lemma formatError_never_returns: "\<not> returns_normally (Result_formatError this er h)"
  unfolding Result_formatError_def
  by (intro bind_never_returns) (simp add: js_throw_def)

lemma new_Result_returns [simp]: "returns_normally (new_Result v h)"
  by (simp add: new_Result_eq)

lemma new_Option_returns [simp]: "returns_normally (new_Option v h)"
  by (simp add: new_Option_eq)

lemma Err_returns [simp]: "returns_normally (Err v h)"
  by (cases v) (simp_all add: Err_def js_bind_def new_Error_eq new_Result_eq)

subsection \<open>Calls that leave the existing objects alone\<close>

lemma heap_extends_refl [simp]: "heap_extends h h"
  by (simp add: heap_extends_def)

lemma heap_extends_length:
  assumes "heap_extends h0 h"
  shows "length h0 \<le> length h"
proof -
  have "length (take (length h0) h) = length h0"
    using assms by (simp add: heap_extends_def)
  then show ?thesis by simp
qed

lemma heap_extends_append [simp]: "heap_extends h0 h \<Longrightarrow> heap_extends h0 (h @ xs)"
  using heap_extends_length [of h0 h] by (simp add: heap_extends_def)

lemma heap_extends_update:
  "heap_extends h0 h \<Longrightarrow> length h0 \<le> a \<Longrightarrow> heap_extends h0 (h[a := x])"
  by (simp add: heap_extends_def)

lemma heap_extends_get_val:
  "heap_extends h0 h \<Longrightarrow> a < length h0 \<Longrightarrow> get_val h a = get_val h0 a"
  unfolding heap_extends_def get_val_def by (metis nth_take)

lemma ext_bind:
  "heap_extends h0 (snd (m h)) \<Longrightarrow>
   (\<And>x h'. heap_extends h0 h' \<Longrightarrow> heap_extends h0 (snd (f x h'))) \<Longrightarrow>
   heap_extends h0 (snd (js_bind m f h))"
  by (cases "m h") (auto simp: js_bind_def split: completion.splits)

lemma ext_return [simp]: "heap_extends h0 h \<Longrightarrow> heap_extends h0 (snd (js_return x h))"
  by (simp add: js_return_def)

lemma ext_throw [simp]: "heap_extends h0 h \<Longrightarrow> heap_extends h0 (snd (js_throw x h))"
  by (simp add: js_throw_def)

lemma ext_read_val [simp]: "heap_extends h0 h \<Longrightarrow> heap_extends h0 (snd (read_val a h))"
  by (simp add: read_val_def)

lemma ext_new_Error [simp]: "heap_extends h0 h \<Longrightarrow> heap_extends h0 (snd (new_Error msg h))"
  by (simp add: new_Error_eq)

lemma ext_new_Result [simp]: "heap_extends h0 h \<Longrightarrow> heap_extends h0 (snd (new_Result v h))"
  by (simp add: new_Result_eq)

lemma ext_new_Option [simp]: "heap_extends h0 h \<Longrightarrow> heap_extends h0 (snd (new_Option v h))"
  by (simp add: new_Option_eq)

lemma ext_throw_TypeError [simp]:
  "heap_extends h0 h \<Longrightarrow> heap_extends h0 (snd (throw_TypeError msg h))"
  by (simp add: throw_TypeError_def js_bind_def alloc_def js_throw_def)

lemma ext_get_prop [simp]: "heap_extends h0 h \<Longrightarrow> heap_extends h0 (snd (get_prop v k h))"
  by (cases v) (simp_all add: get_prop_def split: option.splits)

lemma ext_template [simp]: "heap_extends h0 h \<Longrightarrow> heap_extends h0 (snd (template v h))"
  by (cases v) (simp_all add: template_def split: option.splits)

lemma ext_Err [simp]: "heap_extends h0 h \<Longrightarrow> heap_extends h0 (snd (Err v h))"
  by (cases v) (simp_all add: Err_def js_bind_def new_Error_eq new_Result_eq)

text \<open>The one write of the library, \<open>err.stack = \<dots>\<close>, goes to the error just created.\<close>

lemma ext_set_prop:
  "heap_extends h0 h \<Longrightarrow> length h0 \<le> a \<Longrightarrow> heap_extends h0 (snd (set_prop a k v h))"
  by (simp add: set_prop_def heap_extends_update)

lemma ext_formatError:
  "heap_extends h0 h \<Longrightarrow> length h0 \<le> er \<Longrightarrow>
   heap_extends h0 (snd (Result_formatError this er h))"
  unfolding Result_formatError_def
  by (intro ext_bind ext_get_prop ext_template ext_read_val ext_set_prop ext_throw
        ext_return ext_throw_TypeError)
     (auto split: jsval.splits intro: ext_bind)

lemma ext_new_Error_formatError:
  assumes "heap_extends h0 h"
  shows "heap_extends h0 (snd (js_bind (new_Error msg) (Result_formatError this) h))"
proof -
  have "length h0 \<le> length h"
    using assms by (rule heap_extends_length)
  then show ?thesis
    using assms by (simp add: js_bind_def new_Error_eq ext_formatError)
qed

lemma ext_bind_new:
  assumes "heap_extends h0 (snd (m h))"
  shows "heap_extends h0 (snd (js_bind m new_Result h))"
    and "heap_extends h0 (snd (js_bind m new_Option h))"
  using assms by (auto intro: ext_bind)

lemma fresh_bind_new:
  assumes "heap_extends h (snd (m h))" and "returns_normally (m h)"
  shows "returns_fresh h (js_bind m new_Result h)"
    and "returns_fresh h (js_bind m new_Option h)"
  using assms heap_extends_length [of h "snd (m h)"]
  by (cases "m h"; auto simp: js_bind_def returns_fresh_def new_Result_eq new_Option_eq
        split: completion.splits)+

subsection \<open>One pass of \<open>partition\<close>\<close>

lemma partition_step_eq:
  "partition_step acc e h =
     (Return (if truthy (Result_isOk h e) then acc\<lparr>ok := ok acc @ [get_val h e]\<rparr>
              else acc\<lparr>err := err acc @ [get_val h e]\<rparr>), h)"
  by (simp add: partition_step_def Result_unwrap_def Result_unwrapErr_def monad_defs)

lemma reduce_partition_step:
  "reduce partition_step input acc h =
     (Return \<lparr>ok = ok acc @ map (get_val h) (filter (\<lambda>e. truthy (Result_isOk h e)) input),
              err = err acc @ map (get_val h) (filter (\<lambda>e. truthy (Result_isErr h e)) input)\<rparr>,
      h)"
proof (induction input arbitrary: acc)
  case Nil
  show ?case by (simp add: js_return_def)
next
  case (Cons e es)
  have "reduce partition_step (e # es) acc h =
          reduce partition_step es
            (if truthy (Result_isOk h e) then acc\<lparr>ok := ok acc @ [get_val h e]\<rparr>
             else acc\<lparr>err := err acc @ [get_val h e]\<rparr>) h"
    unfolding reduce.simps js_bind_def partition_step_eq [of acc e h] by simp
  then show ?case
    by (simp add: Cons.IH)
qed

section \<open>The capture adapters\<close>

text \<open>
  What holds of the adapters for every thrown or rejected value \<open>v\<close>: they return normally,
  \<open>Result.from\<close> and \<open>Result.fromAsync\<close> with a new container that holds \<open>v\<close>, the
  standalone adapter with \<open>Err(v)\<close>; and when \<open>v\<close> is an error value of the heap, the
  container is failure-classified.
\<close>

lemma capture_adapters_never_rethrow:
  "(fn h = (Throw v, h1) \<longrightarrow> Result_from fn h = new_Result v h1)
   \<and> (afn h = (Throw v, h1) \<or> afn h = (Return (Rejects v), h1) \<longrightarrow>
        Result_fromAsync afn h = settle (new_Result v h1))
   \<and> async (Rejects v) h = settle (Err v h)
   \<and> returns_normally (new_Result v h1) \<and> returns_normally (Err v h)
   \<and> (in_heap h1 v \<and> instanceof h1 v ErrorPrototype \<longrightarrow>
        Result_isErr (snd (new_Result v h1)) (length h1) = JBool True)"
proof (intro conjI impI)
  assume "in_heap h1 v \<and> instanceof h1 v ErrorPrototype"
  then have "in_heap h1 v" and "failure_classified h1 v"
    by (simp_all add: failure_classified_def)
  then show "Result_isErr (snd (new_Result v h1)) (length h1) = JBool True"
    by (simp add: new_Result_eq isErr_classified)
qed (auto simp: Result_from_def Result_fromAsync_def async_def monad_defs)

text \<open>
  C1. The adapters are to yield a failure-classified container for every thrown or
  rejected value. They do for errors only. \<open>Result.from(() => { throw "boom" })\<close> returns
  a container holding the string whose \<open>isErr()\<close> is \<open>false\<close> and \<open>isOk()\<close> is \<open>true\<close>, and
  \<open>unwrap()\<close> hands the thrown string back as the success value; so does
  \<open>Result.fromAsync\<close> on a rejection with \<open>"boom"\<close>, and the standalone adapter on a
  rejection with \<open>42\<close>. The adapters disagree with each other: on a rejection with
  \<open>"boom"\<close> the standalone adapter, which goes through \<open>Err\<close>, gives \<open>isErr()\<close> \<open>true\<close>.
\<close>

theorem thrown_non_error_is_not_failure:
  "Result_from (js_throw (JStr ''boom'')) [] =
     (Return 0, [\<lparr>callable = False, protos = [ResultPrototype, ObjectPrototype],
                   props = [(''val'', JStr ''boom'')]\<rparr>])
   \<and> Result_isErr (snd (Result_from (js_throw (JStr ''boom'')) [])) 0 = JBool False
   \<and> Result_isOk (snd (Result_from (js_throw (JStr ''boom'')) [])) 0 = JBool True
   \<and> fst (Result_unwrap 0 (snd (Result_from (js_throw (JStr ''boom'')) []))) = Return (JStr ''boom'')
   \<and> Result_fromAsync (js_return (Rejects (JStr ''boom''))) [] =
     (Fulfilled 0, [\<lparr>callable = False, protos = [ResultPrototype, ObjectPrototype],
                      props = [(''val'', JStr ''boom'')]\<rparr>])
   \<and> Result_isErr (snd (Result_fromAsync (js_return (Rejects (JStr ''boom''))) [])) 0 = JBool False
   \<and> async (Rejects (JNum 42)) [] =
     (Fulfilled 0, [\<lparr>callable = False, protos = [ResultPrototype, ObjectPrototype],
                      props = [(''val'', JNum 42)]\<rparr>])
   \<and> Result_isErr (snd (async (Rejects (JNum 42)) [])) 0 = JBool False
   \<and> fst (Result_unwrap 0 (snd (async (Rejects (JNum 42)) []))) = Return (JNum 42)
   \<and> fst (async (Rejects (JStr ''boom'')) []) = Fulfilled 1
   \<and> Result_isErr (snd (async (Rejects (JStr ''boom'')) [])) 1 = JBool True"
  by (simp add: Result_from_def Result_fromAsync_def async_def Err_def settle_def monad_defs
      new_Result_eq new_Error_eq Result_isErr_def Result_isOk_def Result_unwrap_def get_val_def
      operator_defs)

section \<open>Classification of a Result\<close>

text \<open>
  C2. \<open>isErr()\<close> is to be \<open>true\<close> exactly on an instance of the host error type or an
  object with the host error type's prototype on its chain, and \<open>false\<close> on every other
  value. The code's second test is \<open>Error.isPrototypeOf(this.val)\<close>, which looks for the
  constructor \<open>Error\<close> on the chain, not for \<open>Error.prototype\<close>: \<open>Ok(Object.create(Error))\<close>
  holds an object that is no instance of \<open>Error\<close> and has no \<open>Error.prototype\<close> on its
  chain, and its \<open>isErr()\<close> is \<open>true\<close> and its \<open>isOk()\<close> \<open>false\<close>. And on a falsy value
  \<open>isErr()\<close> returns that value, not \<open>false\<close>: \<open>Ok(0).isErr()\<close> is \<open>0\<close>.
\<close>

theorem Object_create_Error_is_failure:
  "Ok (JRef 0) [Object_create_Error] =
     (Return 1, [Object_create_Error,
                 \<lparr>callable = False, protos = [ResultPrototype, ObjectPrototype],
                  props = [(''val'', JRef 0)]\<rparr>])
   \<and> Result_isErr (snd (Ok (JRef 0) [Object_create_Error])) 1 = JBool True
   \<and> Result_isOk (snd (Ok (JRef 0) [Object_create_Error])) 1 = JBool False
   \<and> \<not> spec_failure (snd (Ok (JRef 0) [Object_create_Error])) (JRef 0)
   \<and> Ok (JNum 0) [] =
     (Return 0, [\<lparr>callable = False, protos = [ResultPrototype, ObjectPrototype],
                   props = [(''val'', JNum 0)]\<rparr>])
   \<and> \<not> spec_failure (snd (Ok (JNum 0) [])) (JNum 0)
   \<and> Result_isErr (snd (Ok (JNum 0) [])) 0 = JNum 0"
  by (simp add: Ok_def new_Result_def alloc_def Object_create_Error_def Result_isErr_def
      Result_isOk_def get_val_def operator_defs spec_failure_def is_object_def)

text \<open>
  C10. For every Result container, whatever it holds, \<open>isOk()\<close> is the logical negation
  of \<open>isErr()\<close>: \<open>isOk()\<close> returns the boolean \<open>!x\<close> where \<open>x\<close> is what \<open>isErr()\<close> returns,
  so exactly one of the two is truthy.
\<close>

theorem Result_isOk_negates_isErr:
  "Result_isOk h this = JBool (\<not> truthy (Result_isErr h this))
   \<and> truthy (Result_isOk h this) = (\<not> truthy (Result_isErr h this))"
  by (simp add: Result_isOk_def Result_isErr_def js_not_def)

section \<open>From Option to Result and back\<close>




section \<open>The membership-test hooks\<close>

text \<open>
  C4. Each hook is to return \<open>false\<close> on a candidate that is an object whose matching
  predicate does not report true. On an object that has no such predicate the code
  calls \<open>undefined\<close>: \<open>({}) instanceof Ok\<close> throws a TypeError, with each of the four
  hooks, and so do \<open>Ok(1) instanceof Some\<close> and \<open>None() instanceof Ok\<close>. On a container
  of the hook's own class, on \<open>null\<close> and on a primitive the hook returns as the claim
  says: \<open>Ok(1) instanceof Ok\<close> is \<open>true\<close>, \<open>Ok(1) instanceof Err\<close>, \<open>null instanceof Ok\<close>
  and \<open>5 instanceof Ok\<close> are \<open>false\<close>.
\<close>

theorem hasInstance_throws_without_predicate:
  "fst (Ok_hasInstance call_fn (JRef 0)
          [\<lparr>callable = False, protos = [ObjectPrototype], props = []\<rparr>]) = Throw (JRef 1)
   \<and> instanceof (snd (Ok_hasInstance call_fn (JRef 0)
          [\<lparr>callable = False, protos = [ObjectPrototype], props = []\<rparr>])) (JRef 1)
        TypeErrorPrototype
   \<and> fst (Err_hasInstance call_fn (JRef 0)
          [\<lparr>callable = False, protos = [ObjectPrototype], props = []\<rparr>]) = Throw (JRef 1)
   \<and> fst (Some_hasInstance call_fn (JRef 0)
          [\<lparr>callable = False, protos = [ObjectPrototype], props = []\<rparr>]) = Throw (JRef 1)
   \<and> fst (None_hasInstance call_fn (JRef 0)
          [\<lparr>callable = False, protos = [ObjectPrototype], props = []\<rparr>]) = Throw (JRef 1)
   \<and> fst (js_bind (Ok (JNum 1)) (\<lambda>r. Some_hasInstance call_fn (JRef r)) []) = Throw (JRef 1)
   \<and> fst (js_bind None_js (\<lambda>n. Ok_hasInstance call_fn (JRef n)) []) = Throw (JRef 1)
   \<and> fst (js_bind (Ok (JNum 1)) (\<lambda>r. Ok_hasInstance call_fn (JRef r)) []) = Return (JBool True)
   \<and> fst (js_bind (Ok (JNum 1)) (\<lambda>r. Err_hasInstance call_fn (JRef r)) []) = Return (JBool False)
   \<and> fst (Ok_hasInstance call_fn JNull []) = Return (JBool False)
   \<and> fst (Ok_hasInstance call_fn (JNum 5) []) = Return (JBool False)"
  by (simp add: Ok_hasInstance_def Err_hasInstance_def Some_hasInstance_def None_hasInstance_def
      invoke_opt_def invoke_def throw_TypeError_def monad_defs typeof_def Ok_def None_js_def
      new_Result_eq new_Option_eq instanceof_def object_chain_def Result_isOk_def Result_isErr_def
      get_val_def js_or_def js_and_def js_not_def isPrototypeOf_def)

section \<open>Combinators do not throw\<close>

text \<open>
  C5. On every Result or Option container, in any state, and for caller-supplied
  functions that return normally, the combinators \<open>map\<close>, \<open>mapErr\<close>, \<open>mapOr\<close>,
  \<open>unwrapOr\<close>, \<open>unwrapOrElse\<close>, \<open>or\<close>, \<open>ok\<close>, \<open>okOr\<close> and \<open>flatten\<close> return normally. The
  extraction operations and \<open>throw()\<close> are the ones that raise, and they raise exactly
  in the state that does not fit: \<open>unwrap\<close>, \<open>expect\<close> and \<open>throw\<close> on a failure,
  \<open>unwrapErr\<close> and \<open>expectErr\<close> on a success, Option's \<open>unwrap\<close> and \<open>expect\<close> on
  absence.
\<close>

theorem combinators_never_throw:
  assumes fn: "\<And>v h. returns_normally (fn v h)"
      and thunk: "\<And>h. returns_normally (thunk h)"
  shows "returns_normally (Result_map this fn h)
       \<and> returns_normally (Result_mapErr this fn h)
       \<and> returns_normally (Result_mapOr this fallback fn h)
       \<and> returns_normally (Result_unwrapOr this fallback h)
       \<and> returns_normally (Result_unwrapOrElse this fn h)
       \<and> returns_normally (Result_or this alt h)
       \<and> returns_normally (Result_ok this h)
       \<and> returns_normally (Result_flatten this h)
       \<and> returns_normally (Option_map this fn h)
       \<and> returns_normally (Option_mapOr this fallback fn h)
       \<and> returns_normally (Option_unwrapOr this fallback h)
       \<and> returns_normally (Option_unwrapOrElse this thunk h)
       \<and> returns_normally (Option_or this alt h)
       \<and> returns_normally (Option_okOr this e h)
       \<and> returns_normally (Option_flatten this h)
       \<and> returns_normally (Result_unwrap this h) = (\<not> truthy (Result_isErr h this))
       \<and> returns_normally (Result_expect this msg h) = (\<not> truthy (Result_isErr h this))
       \<and> returns_normally (Result_unwrapErr this h) = (\<not> truthy (Result_isOk h this))
       \<and> returns_normally (Result_expectErr this msg h) = (\<not> truthy (Result_isOk h this))
       \<and> returns_normally (Result_throw this h) = (\<not> truthy (Result_isErr h this))
       \<and> returns_normally (Option_unwrap this h) = (\<not> truthy (Option_isNone h this))
       \<and> returns_normally (Option_expect this msg h) = (\<not> truthy (Option_isNone h this))"
proof -
  have never: "\<not> returns_normally (js_bind (js_bind m (Result_formatError this)) f h)" for m f h
    by (intro bind_left_never_returns bind_never_returns formatError_never_returns)
  have never2: "\<not> returns_normally
      (js_bind (js_bind m1 (\<lambda>x. js_bind (m2 x) (Result_formatError this))) f h)"
    for m1 m2 f h
    by (intro bind_left_never_returns bind_never_returns formatError_never_returns)
  have never3: "\<not> returns_normally
      (js_bind m (\<lambda>t. js_bind (m2 t) (\<lambda>e. js_throw (JRef e))) h)"
    for m m2 h
    by (intro bind_never_returns) (simp add: js_throw_def)
  have never4: "\<not> returns_normally (js_bind m (\<lambda>e. js_throw (JRef e)) h)" for m h
    by (intro bind_never_returns) (simp add: js_throw_def)
  have R1: "returns_normally (Result_map this fn h)"
    by (simp add: Result_map_def js_return_def bind_returns fn)
  have R2: "returns_normally (Result_mapErr this fn h)"
    by (simp add: Result_mapErr_def js_return_def bind_returns fn)
  have R3: "returns_normally (Result_mapOr this fallback fn h)"
    by (simp add: Result_mapOr_def js_return_def fn)
  have R4: "returns_normally (Result_unwrapOr this fallback h)"
    by (simp add: Result_unwrapOr_def js_return_def read_val_def)
  have R5: "returns_normally (Result_unwrapOrElse this fn h)"
    by (simp add: Result_unwrapOrElse_def read_val_def fn)
  have R6: "returns_normally (Result_or this alt h)"
    by (simp add: Result_or_def js_return_def)
  have R7: "returns_normally (Result_ok this h)"
    by (simp add: Result_ok_def Some_js_def None_js_def)
  have R8: "returns_normally (Result_flatten this h)"
    by (simp add: Result_flatten_def js_return_def)
  have O1: "returns_normally (Option_map this fn h)"
    by (simp add: Option_map_def js_return_def bind_returns fn)
  have O2: "returns_normally (Option_mapOr this fallback fn h)"
    by (simp add: Option_mapOr_def js_return_def fn)
  have O3: "returns_normally (Option_unwrapOr this fallback h)"
    by (simp add: Option_unwrapOr_def js_return_def read_val_def)
  have O4: "returns_normally (Option_unwrapOrElse this thunk h)"
    by (simp add: Option_unwrapOrElse_def read_val_def thunk)
  have O5: "returns_normally (Option_or this alt h)"
    by (simp add: Option_or_def js_return_def)
  have O6: "returns_normally (Option_okOr this e h)"
    by (simp add: Option_okOr_def Ok_def)
  have O7: "returns_normally (Option_flatten this h)"
    by (simp add: Option_flatten_def js_return_def)
  have X1: "returns_normally (Result_unwrap this h) = (\<not> truthy (Result_isErr h this))"
    unfolding Result_unwrap_def by (simp add: never2 read_val_def)
  have X2: "returns_normally (Result_expect this msg h) = (\<not> truthy (Result_isErr h this))"
    unfolding Result_expect_def by (simp add: never read_val_def)
  have X3: "returns_normally (Result_unwrapErr this h) = (\<not> truthy (Result_isOk h this))"
    unfolding Result_unwrapErr_def by (simp add: never3 read_val_def)
  have X4: "returns_normally (Result_expectErr this msg h) = (\<not> truthy (Result_isOk h this))"
    unfolding Result_expectErr_def by (simp add: never read_val_def)
  have X5: "returns_normally (Result_throw this h) = (\<not> truthy (Result_isErr h this))"
    by (simp add: Result_throw_def js_throw_def js_return_def)
  have X6: "returns_normally (Option_unwrap this h) = (\<not> truthy (Option_isNone h this))"
    unfolding Option_unwrap_def by (simp add: never4 read_val_def)
  have X7: "returns_normally (Option_expect this msg h) = (\<not> truthy (Option_isNone h this))"
    unfolding Option_expect_def by (simp add: never4 read_val_def)
  from R1 R2 R3 R4 R5 R6 R7 R8 O1 O2 O3 O4 O5 O6 O7 X1 X2 X3 X4 X5 X6 X7 show ?thesis
    by blast
qed

text \<open>The theorem with the identity function, on \<open>Ok(1)\<close> and on \<open>None()\<close>.\<close>

theorem combinators_never_throw_witness:
  "returns_normally (Result_map 0 js_return
       [\<lparr>callable = False, protos = [ResultPrototype, ObjectPrototype],
          props = [(''val'', JNum 1)]\<rparr>])
   \<and> returns_normally (Option_unwrapOrElse 0 (js_return JNull)
       [\<lparr>callable = False, protos = [OptionPrototype, ObjectPrototype],
          props = [(''val'', none)]\<rparr>])
   \<and> \<not> returns_normally (Option_unwrap 0
       [\<lparr>callable = False, protos = [OptionPrototype, ObjectPrototype],
          props = [(''val'', none)]\<rparr>])"
  using combinators_never_throw [where fn = js_return and thunk = "js_return JNull" and this = 0
      and h = "[\<lparr>callable = False, protos = [ResultPrototype, ObjectPrototype],
                  props = [(''val'', JNum 1)]\<rparr>]"]
    combinators_never_throw [where fn = js_return and thunk = "js_return JNull" and this = 0
      and h = "[\<lparr>callable = False, protos = [OptionPrototype, ObjectPrototype],
                  props = [(''val'', none)]\<rparr>]"]
  by (simp add: js_return_def Option_isNone_def get_val_def)

section \<open>Partition\<close>

text \<open>
  C6. \<open>Result.partition(xs)\<close> makes one pass over \<open>xs\<close> and returns \<open>{ok, err}\<close>: \<open>ok\<close>
  holds the values of the success-classified elements in their order, \<open>err\<close> the values
  of the failure-classified elements in their order, nothing dropped or merged. The empty
  array gives two empty arrays, and \<open>Result.partition([Ok(2), Ok(16), Err("boom")])\<close>
  gives \<open>[2, 16]\<close> and one error whose message is \<open>"boom"\<close>.
\<close>

theorem partition_spec:
  "Result_partition input h =
     (Return \<lparr>ok = map (get_val h) (filter (\<lambda>e. truthy (Result_isOk h e)) input),
              err = map (get_val h) (filter (\<lambda>e. truthy (Result_isErr h e)) input)\<rparr>, h)
   \<and> Result_partition [] h = (Return \<lparr>ok = [], err = []\<rparr>, h)
   \<and> (\<exists>h3. js_bind (Ok (JNum 2)) (\<lambda>a. js_bind (Ok (JNum 16)) (\<lambda>b.
             js_bind (Err (JStr ''boom'')) (\<lambda>c. Result_partition [a, b, c]))) []
           = (Return \<lparr>ok = [JNum 2, JNum 16], err = [JRef 2]\<rparr>, h3)
        \<and> instanceof h3 (JRef 2) ErrorPrototype
        \<and> get_prop (JRef 2) ''message'' h3 = (Return (JStr ''boom''), h3))"
proof (intro conjI)
  show gen: "Result_partition input h =
     (Return \<lparr>ok = map (get_val h) (filter (\<lambda>e. truthy (Result_isOk h e)) input),
              err = map (get_val h) (filter (\<lambda>e. truthy (Result_isErr h e)) input)\<rparr>, h)"
    for input h
    by (simp add: Result_partition_def reduce_partition_step)
  show "Result_partition [] h = (Return \<lparr>ok = [], err = []\<rparr>, h)"
    by (simp add: Result_partition_def js_return_def)
  show "\<exists>h3. js_bind (Ok (JNum 2)) (\<lambda>a. js_bind (Ok (JNum 16)) (\<lambda>b.
             js_bind (Err (JStr ''boom'')) (\<lambda>c. Result_partition [a, b, c]))) []
           = (Return \<lparr>ok = [JNum 2, JNum 16], err = [JRef 2]\<rparr>, h3)
        \<and> instanceof h3 (JRef 2) ErrorPrototype
        \<and> get_prop (JRef 2) ''message'' h3 = (Return (JStr ''boom''), h3)"
    by (simp add: gen js_bind_def Ok_def Err_def new_Result_eq new_Error_eq get_val_def
        failure_classified_def operator_defs get_prop_def)
qed

section \<open>Option.from\<close>

text \<open>
  C7 (as amended). \<open>Option.from(fn)\<close> returns \<open>None()\<close> when \<open>fn\<close> returns \<open>null\<close> or
  \<open>undefined\<close>, and for every other return value except the absence marker \<open>none\<close> a
  Some wrapping the returned value: its \<open>isSome()\<close> is \<open>true\<close> and it unwraps to that
  value; \<open>0\<close> and the empty string give a Some, not a None. What \<open>fn\<close> throws is not
  caught: \<open>Option.from\<close> throws it, and the promise of \<open>Option.fromAsync\<close>, which treats
  the awaited value in the same way, is rejected with it.
\<close>

theorem Option_from_spec:
  "(fn h = (Return r, h1) \<and> (r = JNull \<or> r = JUndefined) \<longrightarrow>
      Option_from fn h = None_js h1
      \<and> (\<exists>a h'. Option_from fn h = (Return a, h') \<and> Option_isNone h' a = JBool True
            \<and> Option_isSome h' a = JBool False))
   \<and> (fn h = (Return r, h1) \<and> r \<noteq> JNull \<and> r \<noteq> JUndefined \<and> r \<noteq> none \<longrightarrow>
      Option_from fn h = Some_js r h1
      \<and> (\<exists>a h'. Option_from fn h = (Return a, h') \<and> Option_isSome h' a = JBool True
            \<and> Option_isNone h' a = JBool False \<and> Option_unwrap a h' = (Return r, h')))
   \<and> (fn h = (Throw e, h1) \<longrightarrow> Option_from fn h = (Throw e, h1))
   \<and> (\<exists>a h'. Option_from (js_return (JNum 0)) h = (Return a, h')
          \<and> Option_isSome h' a = JBool True \<and> Option_unwrap a h' = (Return (JNum 0), h'))
   \<and> (\<exists>a h'. Option_from (js_return (JStr [])) h = (Return a, h')
          \<and> Option_isSome h' a = JBool True \<and> Option_unwrap a h' = (Return (JStr []), h'))
   \<and> (afn h = (Return (Resolves r), h1) \<and> (r = JNull \<or> r = JUndefined) \<longrightarrow>
      (\<exists>a h'. Option_fromAsync afn h = (Fulfilled a, h') \<and> Option_isNone h' a = JBool True
            \<and> Option_isSome h' a = JBool False))
   \<and> (afn h = (Return (Resolves r), h1) \<and> r \<noteq> JNull \<and> r \<noteq> JUndefined \<and> r \<noteq> none \<longrightarrow>
      (\<exists>a h'. Option_fromAsync afn h = (Fulfilled a, h') \<and> Option_isSome h' a = JBool True
            \<and> Option_isNone h' a = JBool False \<and> Option_unwrap a h' = (Return r, h')))
   \<and> (afn h = (Return (Rejects e), h1) \<or> afn h = (Throw e, h1) \<longrightarrow>
      Option_fromAsync afn h = (Rejected e, h1))"
  by (auto simp: Option_from_def Option_fromAsync_def Some_js_def None_js_def monad_defs
      new_Option_eq Option_isSome_def Option_isNone_def Option_unwrap_def none_def settle_def)

text \<open>
  The theorem at functions returning \<open>5\<close> and \<open>null\<close>, at one throwing \<open>"x"\<close>, and at
  promises resolving to \<open>5\<close> and rejecting with \<open>"x"\<close>.
\<close>

theorem Option_from_spec_witness:
  "js_return (JNum 5) [] = (Return (JNum 5), [])
   \<and> JNum 5 \<noteq> JNull \<and> JNum 5 \<noteq> JUndefined \<and> JNum 5 \<noteq> none
   \<and> Option_from (js_return (JNum 5)) [] = Some_js (JNum 5) []
   \<and> (\<exists>a h'. Option_from (js_return (JNum 5)) [] = (Return a, h')
         \<and> Option_isSome h' a = JBool True \<and> Option_unwrap a h' = (Return (JNum 5), h'))
   \<and> (\<exists>a h'. Option_fromAsync (js_return (Resolves (JNum 5))) [] = (Fulfilled a, h')
         \<and> Option_isSome h' a = JBool True)
   \<and> js_return JNull [] = (Return JNull, [])
   \<and> Option_from (js_return JNull) [] = None_js []
   \<and> (\<exists>a h'. Option_fromAsync (js_return (Resolves JNull)) [] = (Fulfilled a, h')
         \<and> Option_isNone h' a = JBool True)
   \<and> js_throw (JStr ''x'') [] = (Throw (JStr ''x''), [])
   \<and> Option_from (js_throw (JStr ''x'')) [] = (Throw (JStr ''x''), [])
   \<and> Option_fromAsync (js_return (Rejects (JStr ''x''))) [] = (Rejected (JStr ''x''), [])"
proof -
  have r5: "js_return (JNum 5) [] = (Return (JNum 5), [])"
    and a5: "js_return (Resolves (JNum 5)) [] = (Return (Resolves (JNum 5)), [])"
    and rn: "js_return JNull [] = (Return JNull, [])"
    and an: "js_return (Resolves JNull) [] = (Return (Resolves JNull), [])"
    and tx: "js_throw (JStr ''x'') [] = (Throw (JStr ''x''), [])"
    and ax: "js_return (Rejects (JStr ''x'')) [] = (Return (Rejects (JStr ''x'')), [])"
    by (simp_all add: js_return_def js_throw_def)
  have ne: "JNum 5 \<noteq> JNull \<and> JNum 5 \<noteq> JUndefined \<and> JNum 5 \<noteq> none"
    by (simp add: none_def)
  from r5 a5 ne
    Option_from_spec [of "js_return (JNum 5)" "[]" "JNum 5" "[]" "JStr ''x''"
      "js_return (Resolves (JNum 5))"]
  have A: "Option_from (js_return (JNum 5)) [] = Some_js (JNum 5) []
     \<and> (\<exists>a h'. Option_from (js_return (JNum 5)) [] = (Return a, h')
         \<and> Option_isSome h' a = JBool True \<and> Option_unwrap a h' = (Return (JNum 5), h'))
     \<and> (\<exists>a h'. Option_fromAsync (js_return (Resolves (JNum 5))) [] = (Fulfilled a, h')
         \<and> Option_isSome h' a = JBool True)"
    by blast
  from rn an
    Option_from_spec [of "js_return JNull" "[]" JNull "[]" "JStr ''x''"
      "js_return (Resolves JNull)"]
  have B: "Option_from (js_return JNull) [] = None_js []
     \<and> (\<exists>a h'. Option_fromAsync (js_return (Resolves JNull)) [] = (Fulfilled a, h')
         \<and> Option_isNone h' a = JBool True)"
    by blast
  from tx ax
    Option_from_spec [of "js_throw (JStr ''x'')" "[]" JNull "[]" "JStr ''x''"
      "js_return (Rejects (JStr ''x''))"]
  have C: "Option_from (js_throw (JStr ''x'')) [] = (Throw (JStr ''x''), [])
     \<and> Option_fromAsync (js_return (Rejects (JStr ''x''))) [] = (Rejected (JStr ''x''), [])"
    by blast
  from r5 rn tx ne A B C show ?thesis
    by blast
qed

text \<open>
  C7 as stated fails at the exported marker: with \<open>fn\<close> returning \<open>none\<close>, which is
  neither \<open>null\<close> nor \<open>undefined\<close>, \<open>Option.from(fn)\<close> is a None: its \<open>isNone()\<close> is
  \<open>true\<close> and its \<open>isSome()\<close> is \<open>false\<close>.
\<close>

theorem Option_from_of_none_is_None:
  "none \<noteq> JNull \<and> none \<noteq> JUndefined
   \<and> Option_from (js_return none) [] =
     (Return 0, [\<lparr>callable = False, protos = [OptionPrototype, ObjectPrototype],
                   props = [(''val'', none)]\<rparr>])
   \<and> Option_isNone (snd (Option_from (js_return none) [])) 0 = JBool True
   \<and> Option_isSome (snd (Option_from (js_return none) [])) 0 = JBool False"
  by (simp add: Option_from_def monad_defs new_Option_eq Option_isSome_def Option_isNone_def
      get_val_def none_def)

section \<open>Some and None\<close>

text \<open>
  C8 (as amended). For every value \<open>v\<close> other than the absence marker \<open>none\<close>, and so
  for \<open>null\<close> and \<open>undefined\<close>, \<open>Some(v).isSome()\<close> is \<open>true\<close> and \<open>Some(v).isNone()\<close>
  is \<open>false\<close>; \<open>None().isNone()\<close> is \<open>true\<close> and \<open>None().isSome()\<close> is \<open>false\<close>.
\<close>

theorem Some_None_predicates:
  "(v \<noteq> none \<longrightarrow>
      (\<exists>a h'. Some_js v h = (Return a, h')
         \<and> Option_isSome h' a = JBool True \<and> Option_isNone h' a = JBool False))
   \<and> (\<exists>a h'. None_js h = (Return a, h')
         \<and> Option_isNone h' a = JBool True \<and> Option_isSome h' a = JBool False)"
  by (simp add: Some_js_def None_js_def new_Option_eq Option_isSome_def Option_isNone_def)

text \<open>The theorem at \<open>null\<close> and at \<open>undefined\<close>.\<close>

theorem Some_None_predicates_witness:
  "JNull \<noteq> none \<and> JUndefined \<noteq> none
   \<and> (\<exists>a h'. Some_js JNull [] = (Return a, h')
         \<and> Option_isSome h' a = JBool True \<and> Option_isNone h' a = JBool False)
   \<and> (\<exists>a h'. Some_js JUndefined [] = (Return a, h')
         \<and> Option_isSome h' a = JBool True \<and> Option_isNone h' a = JBool False)"
  using Some_None_predicates [of JNull "[]"] Some_None_predicates [of JUndefined "[]"]
  by (simp add: none_def)

text \<open>
  C8 as stated fails at the exported marker: \<open>Some(none).isSome()\<close> is \<open>false\<close> and
  \<open>Some(none).isNone()\<close> is \<open>true\<close>.
\<close>

theorem Some_of_none_is_None:
  "Some_js none [] =
     (Return 0, [\<lparr>callable = False, protos = [OptionPrototype, ObjectPrototype],
                   props = [(''val'', none)]\<rparr>])
   \<and> Option_isSome (snd (Some_js none [])) 0 = JBool False
   \<and> Option_isNone (snd (Some_js none [])) 0 = JBool True"
  by (simp add: Some_js_def new_Option_eq Option_isSome_def Option_isNone_def get_val_def)

section \<open>Immutability and the identity of what combinators return\<close>

text \<open>
  C9 (as amended). Every Option and Result container is immutable after construction: no
  operation of a container changes the contained value of the receiver, nor any other
  object that existed before the call (given caller-supplied functions that change none).
  A fresh container is returned by \<open>ok\<close> and \<open>okOr\<close>, by \<open>map\<close> on a success or a
  present value, and by \<open>mapErr\<close> on a failure. \<open>map\<close> on a failure or on absence and
  \<open>mapErr\<close> on a success return the receiver itself; \<open>or\<close> returns the receiver or its
  argument; \<open>flatten\<close> returns the receiver or the container that it holds.
\<close>

theorem containers_immutable:
  assumes fn: "\<And>v h0 h. heap_extends h0 h \<Longrightarrow> heap_extends h0 (snd (fn v h))"
      and thunk: "\<And>h0 h. heap_extends h0 h \<Longrightarrow> heap_extends h0 (snd (thunk h))"
  shows "(heap_extends h (snd (Result_expect this msg h))
        \<and> heap_extends h (snd (Result_expectErr this msg h))
        \<and> heap_extends h (snd (Result_unwrap this h))
        \<and> heap_extends h (snd (Result_unwrapErr this h))
        \<and> heap_extends h (snd (Result_unwrapOr this fallback h))
        \<and> heap_extends h (snd (Result_unwrapOrElse this fn h))
        \<and> heap_extends h (snd (Result_map this fn h))
        \<and> heap_extends h (snd (Result_mapErr this fn h))
        \<and> heap_extends h (snd (Result_mapOr this fallback fn h))
        \<and> heap_extends h (snd (Result_or this alt h))
        \<and> heap_extends h (snd (Result_ok this h))
        \<and> heap_extends h (snd (Result_peek this h))
        \<and> heap_extends h (snd (Result_throw this h))
        \<and> heap_extends h (snd (Result_flatten this h)))
       \<and> (heap_extends h (snd (Option_expect this msg h))
        \<and> heap_extends h (snd (Option_unwrap this h))
        \<and> heap_extends h (snd (Option_unwrapOr this fallback h))
        \<and> heap_extends h (snd (Option_unwrapOrElse this thunk h))
        \<and> heap_extends h (snd (Option_map this fn h))
        \<and> heap_extends h (snd (Option_mapOr this fallback fn h))
        \<and> heap_extends h (snd (Option_or this alt h))
        \<and> heap_extends h (snd (Option_okOr this e h))
        \<and> heap_extends h (snd (Option_peek this h))
        \<and> heap_extends h (snd (Option_flatten this h)))
       \<and> (\<forall>h' a. heap_extends h h' \<and> a < length h \<longrightarrow> get_val h' a = get_val h a)
       \<and> (Result_map this fn h =
             (if truthy (Result_isOk h this) then js_bind (fn (get_val h this)) new_Result h
              else (Return this, h))
         \<and> Result_mapErr this fn h =
             (if truthy (Result_isOk h this) then (Return this, h)
              else js_bind (fn (get_val h this)) new_Result h)
         \<and> Option_map this fn h =
             (if truthy (Option_isSome h this) then js_bind (fn (get_val h this)) new_Option h
              else (Return this, h))
         \<and> (returns_normally (fn (get_val h this) h) \<longrightarrow>
               returns_fresh h (js_bind (fn (get_val h this)) new_Result h)
             \<and> returns_fresh h (js_bind (fn (get_val h this)) new_Option h))
         \<and> Result_or this alt h = (Return (if truthy (Result_isOk h this) then this else alt), h)
         \<and> Option_or this alt h = (Return (if truthy (Option_isSome h this) then this else alt), h)
         \<and> (\<exists>b. Result_flatten this h = (Return b, h) \<and> (b = this \<or> get_val h this = JRef b))
         \<and> (\<exists>b. Option_flatten this h = (Return b, h) \<and> (b = this \<or> get_val h this = JRef b))
         \<and> returns_fresh h (Result_ok this h)
         \<and> returns_fresh h (Option_okOr this e h))"
proof -
  have fn0: "heap_extends h (snd (fn v h))" for v
    by (simp add: fn)
  have A: "heap_extends h (snd (Result_expect this msg h))
        \<and> heap_extends h (snd (Result_expectErr this msg h))
        \<and> heap_extends h (snd (Result_unwrap this h))
        \<and> heap_extends h (snd (Result_unwrapErr this h))"
    unfolding Result_expect_def Result_expectErr_def Result_unwrap_def Result_unwrapErr_def
    by (auto intro!: ext_bind ext_new_Error_formatError)
  have B: "heap_extends h (snd (Result_unwrapOr this fallback h))
        \<and> heap_extends h (snd (Result_unwrapOrElse this fn h))
        \<and> heap_extends h (snd (Result_map this fn h))
        \<and> heap_extends h (snd (Result_mapErr this fn h))
        \<and> heap_extends h (snd (Result_mapOr this fallback fn h))"
    unfolding Result_unwrapOr_def Result_unwrapOrElse_def Result_map_def Result_mapErr_def
      Result_mapOr_def
    by (auto intro!: ext_bind_new fn0)
  have C: "heap_extends h (snd (Result_or this alt h))
        \<and> heap_extends h (snd (Result_ok this h))
        \<and> heap_extends h (snd (Result_peek this h))
        \<and> heap_extends h (snd (Result_throw this h))
        \<and> heap_extends h (snd (Result_flatten this h))"
    unfolding Result_or_def Result_ok_def Result_peek_def Result_throw_def Result_flatten_def
      Some_js_def None_js_def
    by auto
  have D: "heap_extends h (snd (Option_expect this msg h))
        \<and> heap_extends h (snd (Option_unwrap this h))
        \<and> heap_extends h (snd (Option_unwrapOr this fallback h))
        \<and> heap_extends h (snd (Option_unwrapOrElse this thunk h))
        \<and> heap_extends h (snd (Option_map this fn h))"
    unfolding Option_expect_def Option_unwrap_def Option_unwrapOr_def Option_unwrapOrElse_def
      Option_map_def
    by (auto intro!: ext_bind ext_bind_new fn0 thunk)
  have E: "heap_extends h (snd (Option_mapOr this fallback fn h))
        \<and> heap_extends h (snd (Option_or this alt h))
        \<and> heap_extends h (snd (Option_okOr this e h))
        \<and> heap_extends h (snd (Option_peek this h))
        \<and> heap_extends h (snd (Option_flatten this h))"
    unfolding Option_mapOr_def Option_or_def Option_okOr_def Option_peek_def Option_flatten_def
      Ok_def
    by (auto intro!: fn0)
  have F: "\<forall>h' a. heap_extends h h' \<and> a < length h \<longrightarrow> get_val h' a = get_val h a"
    by (auto intro: heap_extends_get_val)
  have G: "Result_map this fn h =
             (if truthy (Result_isOk h this) then js_bind (fn (get_val h this)) new_Result h
              else (Return this, h))
         \<and> Result_mapErr this fn h =
             (if truthy (Result_isOk h this) then (Return this, h)
              else js_bind (fn (get_val h this)) new_Result h)
         \<and> Option_map this fn h =
             (if truthy (Option_isSome h this) then js_bind (fn (get_val h this)) new_Option h
              else (Return this, h))"
    by (simp add: Result_map_def Result_mapErr_def Option_map_def js_return_def)
  have H: "returns_normally (fn (get_val h this) h) \<longrightarrow>
               returns_fresh h (js_bind (fn (get_val h this)) new_Result h)
             \<and> returns_fresh h (js_bind (fn (get_val h this)) new_Option h)"
    by (auto intro: fresh_bind_new fn0)
  have I: "Result_or this alt h = (Return (if truthy (Result_isOk h this) then this else alt), h)
         \<and> Option_or this alt h = (Return (if truthy (Option_isSome h this) then this else alt), h)"
    by (simp add: Result_or_def Option_or_def js_return_def)
  have J: "(\<exists>b. Result_flatten this h = (Return b, h) \<and> (b = this \<or> get_val h this = JRef b))
         \<and> (\<exists>b. Option_flatten this h = (Return b, h) \<and> (b = this \<or> get_val h this = JRef b))"
    by (cases "get_val h this")
       (simp_all add: Result_flatten_def Option_flatten_def js_return_def)
  have K: "returns_fresh h (Result_ok this h) \<and> returns_fresh h (Option_okOr this e h)"
    by (cases e)
       (simp_all add: Result_ok_def Option_okOr_def Some_js_def None_js_def Ok_def Err_def
          js_bind_def new_Option_eq new_Result_eq new_Error_eq returns_fresh_def)
  from A B C D E F G H I J K show ?thesis
    by blast
qed

text \<open>The theorem with the identity function, on \<open>Ok(1)\<close>.\<close>

theorem containers_immutable_witness:
  "heap_extends
     [\<lparr>callable = False, protos = [ResultPrototype, ObjectPrototype],
        props = [(''val'', JNum 1)]\<rparr>]
     (snd (Result_map 0 js_return
       [\<lparr>callable = False, protos = [ResultPrototype, ObjectPrototype],
          props = [(''val'', JNum 1)]\<rparr>]))
   \<and> returns_fresh
        [\<lparr>callable = False, protos = [ResultPrototype, ObjectPrototype],
           props = [(''val'', JNum 1)]\<rparr>]
        (Result_ok 0
          [\<lparr>callable = False, protos = [ResultPrototype, ObjectPrototype],
             props = [(''val'', JNum 1)]\<rparr>])"
proof -
  have fn: "heap_extends h0 h \<Longrightarrow> heap_extends h0 (snd (js_return v h))" for h0 h and v :: jsval
    by simp
  have thunk: "heap_extends h0 h \<Longrightarrow> heap_extends h0 (snd (js_return JNull h))" for h0 h
    by simp
  show ?thesis
    using containers_immutable [where fn = js_return and thunk = "js_return JNull" and this = 0
      and h = "[\<lparr>callable = False, protos = [ResultPrototype, ObjectPrototype],
                  props = [(''val'', JNum 1)]\<rparr>]", OF fn thunk]
    by blast
qed

text \<open>
  C9 as stated fails: with \<open>s = Some(1)\<close> and \<open>n = None()\<close>, \<open>s.or(n)\<close> returns \<open>s\<close>
  itself, not a fresh container.
\<close>

theorem or_returns_receiver:
  "js_bind (Some_js (JNum 1)) (\<lambda>s. js_bind None_js (\<lambda>n. js_return (s, n))) [] =
     (Return (0, 1),
      [\<lparr>callable = False, protos = [OptionPrototype, ObjectPrototype],
         props = [(''val'', JNum 1)]\<rparr>,
       \<lparr>callable = False, protos = [OptionPrototype, ObjectPrototype],
         props = [(''val'', none)]\<rparr>])
   \<and> fst (Option_or 0 1
      [\<lparr>callable = False, protos = [OptionPrototype, ObjectPrototype],
         props = [(''val'', JNum 1)]\<rparr>,
       \<lparr>callable = False, protos = [OptionPrototype, ObjectPrototype],
         props = [(''val'', none)]\<rparr>])
     = Return 0
   \<and> \<not> returns_fresh
      [\<lparr>callable = False, protos = [OptionPrototype, ObjectPrototype],
         props = [(''val'', JNum 1)]\<rparr>,
       \<lparr>callable = False, protos = [OptionPrototype, ObjectPrototype],
         props = [(''val'', none)]\<rparr>]
      (Option_or 0 1
      [\<lparr>callable = False, protos = [OptionPrototype, ObjectPrototype],
         props = [(''val'', JNum 1)]\<rparr>,
       \<lparr>callable = False, protos = [OptionPrototype, ObjectPrototype],
         props = [(''val'', none)]\<rparr>])"
  by (simp add: js_bind_def js_return_def Some_js_def None_js_def new_Option_eq Option_or_def
      Option_isSome_def get_val_def none_def returns_fresh_def)

end
